theory Spec2Isabelle
  imports Complex_Main "HOL-Library.Multiset" "HOL-Library.Char_ord"
    "HOL-Library.List_Lexorder" "HOL-Library.Product_Lexorder"
begin

section \<open>Cells of a data frame\<close>

text \<open>
  A cell of the frame read from the spreadsheet is missing (pandas' NaN, SQLite's NULL),
  a text or a number. Numbers are exact rationals: rounding of the 64-bit floats is left
  out, the two infinities that a float division by zero produces are kept. The text
  \<open>'null'\<close> is an ordinary text until \<open>replace('null', np.nan)\<close> has run.
\<close>

datatype cell = NaN | Text string | Number rat | PInf | NInf

text \<open>
  The exceptions that leave \<open>clean_data\<close>: one raised by pandas' datetime conversion, and
  the \<open>AttributeError\<close> of the \<open>.str\<close> accessor on a column that holds no text.
\<close>

datatype error = PandasError | AttributeError

text \<open>What a text can denote for \<open>pd.to_numeric\<close>: a finite number or an infinity.\<close>

datatype float64 = Finite rat | Infinity | Neg_Infinity

fun cell_of_float :: "float64 \<Rightarrow> cell" where
  "cell_of_float (Finite x) = Number x"
| "cell_of_float Infinity = PInf"
| "cell_of_float Neg_Infinity = NInf"

text \<open>\<open>df.replace('null', np.nan)\<close>, on one cell.\<close>

definition replace_null :: "cell \<Rightarrow> cell" where
  "replace_null c = (if c = Text ''null'' then NaN else c)"

text \<open>
  \<open>pd.to_numeric(col, errors='coerce')\<close>, on one cell: a text that does not parse becomes
  NaN. The parser of pandas is a parameter.
\<close>

fun to_numeric :: "(string \<Rightarrow> float64 option) \<Rightarrow> cell \<Rightarrow> cell" where
  "to_numeric parse (Text s) = (case parse s of None \<Rightarrow> NaN | Some x \<Rightarrow> cell_of_float x)"
| "to_numeric parse c = c"

definition isna :: "cell \<Rightarrow> bool" where
  "isna c = (c = NaN)"

text \<open>
  The comparisons \<open>col > 0\<close> and \<open>col >= 0\<close>: False on NaN. They are only applied to
  columns that went through \<open>to_numeric\<close>, which hold no text.
\<close>

fun cell_gt0 :: "cell \<Rightarrow> bool" where
  "cell_gt0 (Number x) = (0 < x)"
| "cell_gt0 PInf = True"
| "cell_gt0 c = False"

fun cell_ge0 :: "cell \<Rightarrow> bool" where
  "cell_ge0 (Number x) = (0 \<le> x)"
| "cell_ge0 PInf = True"
| "cell_ge0 c = False"

text \<open>
  The division of two float columns. Nothing raises: a zero divisor gives an infinity, or
  NaN for 0/0, and NaN propagates. (The sign of a float zero is not modelled.)
\<close>

fun cell_div :: "cell \<Rightarrow> cell \<Rightarrow> cell" where
  "cell_div (Number a) (Number b) =
     (if b = 0 then (if a = 0 then NaN else if 0 < a then PInf else NInf)
      else Number (a / b))"
| "cell_div (Number a) PInf = Number 0"
| "cell_div (Number a) NInf = Number 0"
| "cell_div PInf (Number b) = (if b < 0 then NInf else PInf)"
| "cell_div NInf (Number b) = (if b < 0 then PInf else NInf)"
| "cell_div x y = NaN"

definition fillna0 :: "cell \<Rightarrow> cell" where
  "fillna0 c = (if c = NaN then Number 0 else c)"

text \<open>\<open>Series.str.contains(pat, na=False)\<close> for a pattern without regex operators.\<close>

fun starts_with :: "string \<Rightarrow> string \<Rightarrow> bool" where
  "starts_with [] s = True"
| "starts_with (p # ps) [] = False"
| "starts_with (p # ps) (c # cs) = (p = c \<and> starts_with ps cs)"

fun substring_of :: "string \<Rightarrow> string \<Rightarrow> bool" where
  "substring_of pat [] = starts_with pat []"
| "substring_of pat (c # cs) = (starts_with pat (c # cs) \<or> substring_of pat cs)"

fun str_contains :: "string \<Rightarrow> cell \<Rightarrow> bool" where
  "str_contains pat (Text s) = substring_of pat s"
| "str_contains pat c = False"

definition astype_int :: "bool \<Rightarrow> int" where
  "astype_int b = (if b then 1 else 0)"

section \<open>Rows and the pandas functions used\<close>

text \<open>
  One row of the frame. The columns \<open>clean_data\<close> reads or writes by name are fields; the
  seven date and time columns (Date, Time, Year, Month, Day, Weekday, Hour) are one
  component \<open>dt\<close> of a type the model leaves open, since only pandas' datetime functions
  touch them; \<open>other\<close> holds the remaining columns of the sheet (booking id, locations,
  reasons). The four derived columns are fields as well: cleaning assigns them whether
  or not the frame had them before.
\<close>

record 'd row =
  dt :: 'd
  Booking_Status :: cell
  Customer_ID :: cell
  Vehicle_Type :: cell
  V_TAT :: cell
  C_TAT :: cell
  Booking_Value :: cell
  Payment_Method :: cell
  Ride_Distance :: cell
  Driver_Ratings :: cell
  Customer_Rating :: cell
  other :: "cell list"
  Is_Successful :: int
  Is_Customer_Cancel :: int
  Is_Driver_Cancel :: int
  Revenue_Per_KM :: cell

text \<open>
  What pandas does and this repository does not define:
  \<^item> \<open>datetime_columns\<close>: all that \<open>OlaDataProcessor.clean_data\<close> does to the date and time
    columns of one row (the replacement of \<open>'null'\<close>, \<open>pd.to_datetime\<close> on Date and on
    Time, \<open>.dt.time\<close>, and the five derived parts); None when \<open>pd.to_datetime\<close> raises;
  \<^item> \<open>datetime_columns_rp\<close>: the same for \<open>process_data\<close> of \<open>run_project.py\<close>;
  \<^item> \<open>parse_number\<close>: the number a text denotes for \<open>pd.to_numeric\<close>, if any;
  \<^item> \<open>sql_Date\<close>: the value of the Date column as \<open>to_sql\<close> stores it.
\<close>

record 'd pandas =
  datetime_columns :: "'d \<Rightarrow> 'd option"
  datetime_columns_rp :: "'d \<Rightarrow> 'd option"
  parse_number :: "string \<Rightarrow> float64 option"
  sql_Date :: "'d \<Rightarrow> cell"

section \<open>\<open>OlaDataProcessor.clean_data\<close>\<close>

text \<open>Step 1, \<open>replace('null', np.nan)\<close> on every column but the date and time ones.\<close>

definition replace_nulls :: "'d row \<Rightarrow> 'd row" where
  "replace_nulls r = r\<lparr>
     Booking_Status := replace_null (Booking_Status r),
     Customer_ID := replace_null (Customer_ID r),
     Vehicle_Type := replace_null (Vehicle_Type r),
     V_TAT := replace_null (V_TAT r),
     C_TAT := replace_null (C_TAT r),
     Booking_Value := replace_null (Booking_Value r),
     Payment_Method := replace_null (Payment_Method r),
     Ride_Distance := replace_null (Ride_Distance r),
     Driver_Ratings := replace_null (Driver_Ratings r),
     Customer_Rating := replace_null (Customer_Rating r),
     other := map replace_null (other r),
     Revenue_Per_KM := replace_null (Revenue_Per_KM r)\<rparr>"

text \<open>Step 2, the numeric columns.\<close>

definition convert_numeric :: "'d pandas \<Rightarrow> 'd row \<Rightarrow> 'd row" where
  "convert_numeric lib r = r\<lparr>
     V_TAT := to_numeric (parse_number lib) (V_TAT r),
     C_TAT := to_numeric (parse_number lib) (C_TAT r),
     Booking_Value := to_numeric (parse_number lib) (Booking_Value r),
     Ride_Distance := to_numeric (parse_number lib) (Ride_Distance r),
     Driver_Ratings := to_numeric (parse_number lib) (Driver_Ratings r),
     Customer_Rating := to_numeric (parse_number lib) (Customer_Rating r)\<rparr>"

text \<open>
  Step 3, the derived flags and the revenue per kilometre. \<open>np.where\<close> evaluates the
  quotient on every row and keeps it where the condition holds; the quotient never raises.
\<close>

definition np_where :: "bool \<Rightarrow> cell \<Rightarrow> cell \<Rightarrow> cell" where
  "np_where cond x y = (if cond then x else y)"

definition derive_flags :: "'d row \<Rightarrow> 'd row" where
  "derive_flags r = r\<lparr>
     Is_Successful := astype_int (Booking_Status r = Text ''Success''),
     Is_Customer_Cancel := astype_int (str_contains ''Customer'' (Booking_Status r)),
     Is_Driver_Cancel := astype_int (str_contains ''Driver'' (Booking_Status r))\<rparr>"

definition derive_revenue :: "'d row \<Rightarrow> 'd row" where
  "derive_revenue r = r\<lparr>
     Revenue_Per_KM :=
       np_where (cell_gt0 (Ride_Distance r) \<and> Is_Successful r = 1)
         (cell_div (Booking_Value r) (Ride_Distance r)) NaN\<rparr>"

text \<open>
  Step 4, the missing values filled by business rule: two assignments through a row mask,
  \<open>loc[cancelled_mask, 'Ride_Distance']\<close> and \<open>loc[success_mask & isna, 'Payment_Method']\<close>.
\<close>

definition fill_missing :: "'d row \<Rightarrow> 'd row" where
  "fill_missing r = r\<lparr>
     Ride_Distance :=
       (if Booking_Status r \<noteq> Text ''Success'' then fillna0 (Ride_Distance r)
        else Ride_Distance r),
     Payment_Method :=
       (if Booking_Status r = Text ''Success'' \<and> isna (Payment_Method r) then Text ''Cash''
        else Payment_Method r)\<rparr>"

text \<open>Step 5, the two row filters.\<close>

definition valid_booking_value :: "'d row \<Rightarrow> bool" where
  "valid_booking_value r = (cell_ge0 (Booking_Value r) \<or> isna (Booking_Value r))"

definition valid_ride_distance :: "'d row \<Rightarrow> bool" where
  "valid_ride_distance r = (cell_ge0 (Ride_Distance r) \<or> isna (Ride_Distance r))"

text \<open>Steps 1 to 4 on one row, given its converted date and time columns.\<close>

definition clean_row :: "'d pandas \<Rightarrow> 'd \<Rightarrow> 'd row \<Rightarrow> 'd row" where
  "clean_row lib d r =
     fill_missing (derive_revenue (derive_flags
       (convert_numeric lib ((replace_nulls r)\<lparr>dt := d\<rparr>))))"

text \<open>The same with the datetime conversion; None when that raises.\<close>

definition transform_row :: "'d pandas \<Rightarrow> 'd row \<Rightarrow> 'd row option" where
  "transform_row lib r =
     (case datetime_columns lib (dt r) of
        None \<Rightarrow> None
      | Some d \<Rightarrow> Some (clean_row lib d r))"

fun those_rows :: "'a option list \<Rightarrow> 'a list option" where
  "those_rows [] = Some []"
| "those_rows (None # xs) = None"
| "those_rows (Some x # xs) = (case those_rows xs of None \<Rightarrow> None | Some ys \<Rightarrow> Some (x # ys))"

text \<open>The frame before the filters of step 5 (\<open>initial_count\<close> is its length).\<close>

definition transformed :: "'d pandas \<Rightarrow> 'd row list \<Rightarrow> 'd row list option" where
  "transformed lib rows = those_rows (map (transform_row lib) rows)"

definition drop_invalid :: "'d row list \<Rightarrow> 'd row list" where
  "drop_invalid rows = filter valid_ride_distance (filter valid_booking_value rows)"

text \<open>
  The frame in \<open>raw_data\<close> is the one \<open>read_excel\<close> built, so the dtype of a column follows
  from its cells: a column in which no cell is a text is numeric, and so is, once step 1 has
  run, a column whose only texts were \<open>'null'\<close>. On such a \<open>Booking_Status\<close> column the
  accessor \<open>.str\<close> of step 3 raises \<open>AttributeError\<close>. The columns of a frame without rows
  have dtype object, which the accessor accepts.
\<close>

fun is_text :: "cell \<Rightarrow> bool" where
  "is_text (Text s) = True"
| "is_text c = False"

definition str_accessor :: "'d row list \<Rightarrow> bool" where
  "str_accessor rows =
     (rows = [] \<or> list_ex (\<lambda>r. is_text (replace_null (Booking_Status r))) rows)"

text \<open>
  The method on the attribute \<open>raw_data\<close>: without loaded data it prints a message and
  returns None; an exception leaves the method (\<open>Inl\<close>), from the datetime conversions
  first, which come before the flags; otherwise the cleaned frame is returned (and stored
  in the attribute \<open>clean_data\<close>).
\<close>

definition clean_data :: "'d pandas \<Rightarrow> 'd row list option \<Rightarrow> error + 'd row list option" where
  "clean_data lib raw_data =
     (case raw_data of
        None \<Rightarrow> Inr None
      | Some rows \<Rightarrow>
          (case transformed lib rows of
             None \<Rightarrow> Inl PandasError
           | Some rs \<Rightarrow>
               if str_accessor rows then Inr (Some (drop_invalid rs)) else Inl AttributeError))"

text \<open>\<open>removed_count = initial_count - len(self.clean_data)\<close>, as the method prints it.\<close>

definition removed_count :: "'d pandas \<Rightarrow> 'd row list \<Rightarrow> nat option" where
  "removed_count lib rows =
     (case transformed lib rows of
        None \<Rightarrow> None
      | Some rs \<Rightarrow>
          if str_accessor rows then Some (length rs - length (drop_invalid rs)) else None)"

section \<open>\<open>process_data\<close> of \<open>run_project.py\<close>: the frame\<close>

text \<open>
  The second pipeline prepares the frame on its own. It replaces \<open>'null'\<close>, converts the
  date and the six numeric columns, derives the date parts and the success flag, and
  divides the booking value by the distance on every row. It has no cancellation flags,
  fills no missing value and drops no row; the two cancellation fields of a row are left
  as they came. The frame is not passed through the \<open>.str\<close> accessor.
\<close>

definition derive_success :: "'d row \<Rightarrow> 'd row" where
  "derive_success r = r\<lparr>Is_Successful := astype_int (Booking_Status r = Text ''Success'')\<rparr>"

definition derive_quotient :: "'d row \<Rightarrow> 'd row" where
  "derive_quotient r = r\<lparr>Revenue_Per_KM := cell_div (Booking_Value r) (Ride_Distance r)\<rparr>"

definition process_row :: "'d pandas \<Rightarrow> 'd \<Rightarrow> 'd row \<Rightarrow> 'd row" where
  "process_row lib d r =
     derive_quotient (derive_success (convert_numeric lib ((replace_nulls r)\<lparr>dt := d\<rparr>)))"

definition preprocess_row :: "'d pandas \<Rightarrow> 'd row \<Rightarrow> 'd row option" where
  "preprocess_row lib r =
     (case datetime_columns_rp lib (dt r) of
        None \<Rightarrow> None
      | Some d \<Rightarrow> Some (process_row lib d r))"

definition preprocessed :: "'d pandas \<Rightarrow> 'd row list \<Rightarrow> 'd row list option" where
  "preprocessed lib rows = those_rows (map (preprocess_row lib) rows)"

section \<open>The spreadsheet\<close>

text \<open>
  What \<open>pd.read_excel\<close> finds at the path: no file, a file it cannot read (not a workbook,
  or without the sheet \<open>July\<close>), or a sheet with its header row and the data rows under it,
  of which there may be none. In the first two cases it raises.
\<close>

datatype 'd source = Missing | Unreadable | Sheet "'d row list"

datatype io_error = FileNotFoundError | ValueError

fun read_excel :: "'d source \<Rightarrow> io_error + 'd row list" where
  "read_excel Missing = Inl FileNotFoundError"
| "read_excel Unreadable = Inl ValueError"
| "read_excel (Sheet rows) = Inr rows"

text \<open>
  \<open>OlaDataProcessor.load_data\<close>: any exception is printed and None returned; the frame read
  becomes \<open>raw_data\<close>, whatever its number of rows.
\<close>

definition load_data :: "'d source \<Rightarrow> 'd row list option" where
  "load_data src = (case read_excel src of Inl e \<Rightarrow> None | Inr rows \<Rightarrow> Some rows)"

section \<open>SQLite: values, aggregates, grouping\<close>

text \<open>
  A line of a summary table or of a query result is the list of its column values, in
  the order of the SELECT. NaN stands for NULL. The first three columns of every summary
  in this repository are the grouping key, \<open>Total_Bookings\<close> and \<open>Successful_Bookings\<close>.
\<close>

type_synonym line = "cell list"

definition Total_Bookings :: "line \<Rightarrow> cell" where
  "Total_Bookings l = l ! 1"

definition Successful_Bookings :: "line \<Rightarrow> cell" where
  "Successful_Bookings l = l ! 2"

text \<open>Float addition: the sum of the two infinities is NaN, which SQLite returns as NULL.\<close>

fun cell_add :: "cell \<Rightarrow> cell \<Rightarrow> cell" where
  "cell_add (Number a) (Number b) = Number (a + b)"
| "cell_add (Number a) PInf = PInf"
| "cell_add (Number a) NInf = NInf"
| "cell_add PInf (Number b) = PInf"
| "cell_add PInf PInf = PInf"
| "cell_add NInf (Number b) = NInf"
| "cell_add NInf NInf = NInf"
| "cell_add x y = NaN"

text \<open>
  An aggregate reads a text as a number; a text that does not start with one counts 0.
  The numeric columns hold no text once \<open>to_numeric\<close> has run.
\<close>

fun sql_real :: "cell \<Rightarrow> cell" where
  "sql_real (Text s) = Number 0"
| "sql_real c = c"

text \<open>\<open>COUNT(*)\<close>, \<open>SUM\<close> of an integer column, \<open>SUM\<close>, \<open>AVG\<close>: NULL is skipped, and without a value
  left the result is NULL.\<close>

definition sql_count :: "'a list \<Rightarrow> cell" where
  "sql_count g = Number (of_nat (length g))"

definition sql_sum_int :: "int list \<Rightarrow> cell" where
  "sql_sum_int xs = (if xs = [] then NaN else Number (of_int (sum_list xs)))"

definition sql_sum :: "cell list \<Rightarrow> cell" where
  "sql_sum cs =
     (case filter (\<lambda>c. c \<noteq> NaN) (map sql_real cs) of
        [] \<Rightarrow> NaN
      | x # xs \<Rightarrow> foldl cell_add x xs)"

definition sql_avg :: "cell list \<Rightarrow> cell" where
  "sql_avg cs =
     (case filter (\<lambda>c. c \<noteq> NaN) (map sql_real cs) of
        [] \<Rightarrow> NaN
      | x # xs \<Rightarrow> cell_div (foldl cell_add x xs) (Number (of_nat (length (x # xs)))))"

text \<open>\<open>ROUND(x, 2)\<close>: half away from zero, on the exact value.\<close>

definition round2 :: "rat \<Rightarrow> rat" where
  "round2 x =
     (if 0 \<le> x then of_int \<lfloor>x * 100 + 1 / 2\<rfloor> / 100
      else - (of_int \<lfloor>- x * 100 + 1 / 2\<rfloor> / 100))"

fun sql_round2 :: "cell \<Rightarrow> cell" where
  "sql_round2 (Number x) = Number (round2 x)"
| "sql_round2 (Text s) = Number 0"
| "sql_round2 c = c"

text \<open>
  The order of SQLite between values: NULL first, then the numbers, then the texts byte
  by byte. \<open>MAX\<close> skips NULL.
\<close>

fun sql_rank :: "cell \<Rightarrow> nat \<times> rat \<times> string" where
  "sql_rank NaN = (0, 0, [])"
| "sql_rank NInf = (1, 0, [])"
| "sql_rank (Number x) = (2, x, [])"
| "sql_rank PInf = (3, 0, [])"
| "sql_rank (Text s) = (4, 0, s)"

definition sql_max :: "cell list \<Rightarrow> cell" where
  "sql_max cs =
     (case filter (\<lambda>c. c \<noteq> NaN) cs of
        [] \<Rightarrow> NaN
      | x # xs \<Rightarrow> foldl (\<lambda>m c. if sql_rank m < sql_rank c then c else m) x xs)"

text \<open>
  \<open>GROUP BY key\<close>: one group for each value of the key, NULL being a value like the
  others, with the rows that have it. SQL leaves the order of the groups open; here they
  come in the order of \<open>remdups\<close>. \<open>ORDER BY\<close> in the SELECT of a \<open>CREATE TABLE\<close> is
  not modelled: nothing reads a summary table by position.
\<close>

definition group_by :: "('r \<Rightarrow> cell) \<Rightarrow> 'r list \<Rightarrow> (cell \<times> 'r list) list" where
  "group_by key rows = map (\<lambda>k. (k, filter (\<lambda>r. key r = k) rows)) (remdups (map key rows))"


section \<open>The database file\<close>

text \<open>
  What the pipelines leave on disk: the CSV file of \<open>process_data\<close> and the four tables of
  \<open>ola_rides.db\<close>; None is a file or table that does not exist. Exceptions of the file
  system and of the SQLite driver are not modelled.
\<close>

record 'd database =
  clean_csv :: "'d row list option"
  rides :: "'d row list option"
  vehicle_summary :: "line list option"
  daily_summary :: "line list option"
  customer_summary :: "line list option"

datatype sql_error = OperationalError | DatatypeMismatch

text \<open>\<open>CREATE TABLE IF NOT EXISTS name AS SELECT ...\<close>: a table of that name stays as it is.\<close>

definition create_table_if_not_exists :: "'a option \<Rightarrow> 'a \<Rightarrow> 'a option" where
  "create_table_if_not_exists existing selected =
     (case existing of None \<Rightarrow> Some selected | Some t \<Rightarrow> Some t)"

section \<open>\<open>OlaDataProcessor.create_database\<close>\<close>

text \<open>The three SELECT statements of \<open>_create_summary_tables\<close>: every aggregate over all rows
  of the group.\<close>

definition vehicle_summary_query :: "'d row list \<Rightarrow> line list" where
  "vehicle_summary_query rs = map (\<lambda>(k, g).
     [k, sql_count g, sql_sum_int (map Is_Successful g),
      sql_avg (map Booking_Value g), sql_sum (map Booking_Value g),
      sql_avg (map Ride_Distance g), sql_sum (map Ride_Distance g),
      sql_avg (map Driver_Ratings g), sql_avg (map Customer_Rating g)])
     (group_by Vehicle_Type rs)"

definition daily_summary_query :: "'d pandas \<Rightarrow> 'd row list \<Rightarrow> line list" where
  "daily_summary_query lib rs = map (\<lambda>(k, g).
     [k, sql_count g, sql_sum_int (map Is_Successful g),
      sql_sum (map Booking_Value g), sql_avg (map Booking_Value g),
      sql_sum (map Ride_Distance g)])
     (group_by (\<lambda>r. sql_Date lib (dt r)) rs)"

definition customer_summary_query :: "'d pandas \<Rightarrow> 'd row list \<Rightarrow> line list" where
  "customer_summary_query lib rs = map (\<lambda>(k, g).
     [k, sql_count g, sql_sum_int (map Is_Successful g),
      sql_sum (map Booking_Value g), sql_avg (map Customer_Rating g),
      sql_max (map (\<lambda>r. sql_Date lib (dt r)) g)])
     (group_by Customer_ID rs)"

text \<open>\<open>_create_summary_tables\<close>; without a table \<open>rides\<close> the first statement raises.\<close>

definition OlaDataProcessor_create_summary_tables ::
    "'d pandas \<Rightarrow> 'd database \<Rightarrow> sql_error + 'd database" where
  "OlaDataProcessor_create_summary_tables lib db =
     (case rides db of
        None \<Rightarrow> Inl OperationalError
      | Some rs \<Rightarrow> Inr (db\<lparr>
          vehicle_summary :=
            create_table_if_not_exists (vehicle_summary db) (vehicle_summary_query rs),
          daily_summary :=
            create_table_if_not_exists (daily_summary db) (daily_summary_query lib rs),
          customer_summary :=
            create_table_if_not_exists (customer_summary db) (customer_summary_query lib rs)\<rparr>))"

text \<open>
  \<open>create_database\<close> on the attribute \<open>clean_data\<close>: False without a cleaned frame;
  otherwise \<open>to_sql('rides', if_exists='replace')\<close>, then the summary tables; an exception
  is printed and False returned, after what was written before it.
\<close>

definition create_database ::
    "'d pandas \<Rightarrow> 'd row list option \<Rightarrow> 'd database \<Rightarrow> bool \<times> 'd database" where
  "create_database lib cleaned db =
     (case cleaned of
        None \<Rightarrow> (False, db)
      | Some rows \<Rightarrow>
          (case OlaDataProcessor_create_summary_tables lib (db\<lparr>rides := Some rows\<rparr>) of
             Inl e \<Rightarrow> (False, db\<lparr>rides := Some rows\<rparr>)
           | Inr db' \<Rightarrow> (True, db')))"

section \<open>\<open>process_data\<close> of \<open>run_project.py\<close>: the database\<close>

text \<open>
  The three SELECT statements of \<open>create_summary_tables\<close>. Sums and averages are rounded
  and taken over the successful rows through \<open>CASE WHEN Is_Successful = 1\<close>, except the
  average booking value of the vehicle summary, which is taken over all rows.
\<close>

definition when_successful :: "'d row \<Rightarrow> cell \<Rightarrow> cell \<Rightarrow> cell" where
  "when_successful r x y = (if Is_Successful r = 1 then x else y)"

definition vehicle_summary_select :: "'d row list \<Rightarrow> line list" where
  "vehicle_summary_select rs = map (\<lambda>(k, g).
     [k, sql_count g, sql_sum_int (map Is_Successful g),
      sql_round2 (sql_avg (map Booking_Value g)),
      sql_round2 (sql_sum (map (\<lambda>r. when_successful r (Booking_Value r) (Number 0)) g)),
      sql_round2 (sql_avg (map (\<lambda>r. when_successful r (Ride_Distance r) NaN) g)),
      sql_round2 (sql_sum (map (\<lambda>r. when_successful r (Ride_Distance r) (Number 0)) g)),
      sql_round2 (sql_avg (map (\<lambda>r. when_successful r (Driver_Ratings r) NaN) g)),
      sql_round2 (sql_avg (map (\<lambda>r. when_successful r (Customer_Rating r) NaN) g))])
     (group_by Vehicle_Type rs)"

definition daily_summary_select :: "'d pandas \<Rightarrow> 'd row list \<Rightarrow> line list" where
  "daily_summary_select lib rs = map (\<lambda>(k, g).
     [k, sql_count g, sql_sum_int (map Is_Successful g),
      sql_round2 (sql_sum (map (\<lambda>r. when_successful r (Booking_Value r) (Number 0)) g)),
      sql_round2 (sql_avg (map (\<lambda>r. when_successful r (Booking_Value r) NaN) g))])
     (group_by (\<lambda>r. sql_Date lib (dt r)) rs)"

definition customer_summary_select :: "'d row list \<Rightarrow> line list" where
  "customer_summary_select rs = map (\<lambda>(k, g).
     [k, sql_count g, sql_sum_int (map Is_Successful g),
      sql_round2 (sql_sum (map (\<lambda>r. when_successful r (Booking_Value r) (Number 0)) g)),
      sql_round2 (sql_avg (map (\<lambda>r. when_successful r (Customer_Rating r) NaN) g))])
     (group_by Customer_ID rs)"

definition create_summary_tables ::
    "'d pandas \<Rightarrow> 'd database \<Rightarrow> sql_error + 'd database" where
  "create_summary_tables lib db =
     (case rides db of
        None \<Rightarrow> Inl OperationalError
      | Some rs \<Rightarrow> Inr (db\<lparr>
          vehicle_summary :=
            create_table_if_not_exists (vehicle_summary db) (vehicle_summary_select rs),
          daily_summary :=
            create_table_if_not_exists (daily_summary db) (daily_summary_select lib rs),
          customer_summary :=
            create_table_if_not_exists (customer_summary db) (customer_summary_select rs)\<rparr>))"

text \<open>
  \<open>process_data\<close>: one \<open>try\<close> around everything; any exception is printed and False returned.
  Nothing is written before the frame is ready; then the CSV file, the table \<open>rides\<close>
  (replaced) and the summary tables, in this order.
\<close>

definition process_data ::
    "'d pandas \<Rightarrow> 'd source \<Rightarrow> 'd database \<Rightarrow> bool \<times> 'd database" where
  "process_data lib src db =
     (case read_excel src of
        Inl e \<Rightarrow> (False, db)
      | Inr rows \<Rightarrow>
          (case preprocessed lib rows of
             None \<Rightarrow> (False, db)
           | Some df \<Rightarrow>
               (case create_summary_tables lib (db\<lparr>clean_csv := Some df, rides := Some df\<rparr>) of
                  Inl e \<Rightarrow> (False, db\<lparr>clean_csv := Some df, rides := Some df\<rparr>)
                | Inr db' \<Rightarrow> (True, db'))))"

section \<open>\<open>BusinessQueries.get_top_customers\<close>\<close>

text \<open>
  The SELECT of \<open>get_top_customers\<close>, before its ORDER BY and LIMIT: one line for each
  customer, with the bookings, the successful bookings, \<open>Total_Spent\<close>, the average
  successful booking value and the success rate; HAVING keeps the lines with
  \<open>Total_Spent > 0\<close>.
\<close>

definition Total_Spent :: "line \<Rightarrow> cell" where
  "Total_Spent l = l ! 3"

definition successful :: "'d row \<Rightarrow> bool" where
  "successful r = (Booking_Status r = Text ''Success'')"

definition top_customers_select :: "'d row list \<Rightarrow> line list" where
  "top_customers_select rs = filter (\<lambda>l. cell_gt0 (Total_Spent l)) (map (\<lambda>(k, g).
     [k, sql_count g, sql_count (filter successful g),
      sql_round2 (sql_sum (map (\<lambda>r. if successful r then Booking_Value r else Number 0) g)),
      sql_round2 (sql_avg (map (\<lambda>r. if successful r then Booking_Value r else NaN) g)),
      sql_round2 (Number (of_nat (length (filter successful g)) * 100 / of_nat (length g)))])
     (group_by Customer_ID rs))"






section \<open>Vocabulary of the specification and sample rides\<close>

text \<open>A value that is present and negative, the removal trigger in the specification's words.\<close>

definition present_and_negative :: "cell \<Rightarrow> bool" where
  "present_and_negative c = (case c of Number x \<Rightarrow> x < 0 | NInf \<Rightarrow> True | _ \<Rightarrow> False)"

text \<open>
  A pandas whose datetime conversion accepts every value and leaves it as it is (the dates
  are texts already in their final form) and whose number parser rejects every text; and
  a few rides: an empty row; the ride of the specification's scenario A; one with a
  negative booking value (scenario B); a ride cancelled by the customer that still carries
  a booking value; a row without a status from a sheet that came with flag columns of its
  own; a successful ride of distance 0; a second successful ride of value 100; and a successful
  ride of value 50.
\<close>

definition demo_lib :: "string pandas" where
  "demo_lib = \<lparr>datetime_columns = Some, datetime_columns_rp = Some,
                parse_number = (\<lambda>s. None), sql_Date = Text\<rparr>"

definition blank_row :: "string row" where
  "blank_row = \<lparr>dt = ''2024-07-01'', Booking_Status = NaN, Customer_ID = NaN,
     Vehicle_Type = NaN, V_TAT = NaN, C_TAT = NaN, Booking_Value = NaN, Payment_Method = NaN,
     Ride_Distance = NaN, Driver_Ratings = NaN, Customer_Rating = NaN, other = [],
     Is_Successful = 0, Is_Customer_Cancel = 0, Is_Driver_Cancel = 0, Revenue_Per_KM = NaN\<rparr>"

definition ride_B1 :: "string row" where
  "ride_B1 = blank_row\<lparr>Booking_Status := Text ''Success'', Customer_ID := Text ''CID1'',
     Vehicle_Type := Text ''Auto'', Booking_Value := Number 100, Ride_Distance := Number 10\<rparr>"

definition ride_negative :: "string row" where
  "ride_negative = blank_row\<lparr>Booking_Status := Text ''Success'', Booking_Value := Number (- 5),
     Ride_Distance := Number 10\<rparr>"

definition ride_cancelled :: "string row" where
  "ride_cancelled = blank_row\<lparr>Booking_Status := Text ''Cancelled by Customer'',
     Customer_ID := Text ''CID2'', Vehicle_Type := Text ''Auto'', Booking_Value := Number 50,
     Ride_Distance := Number 10\<rparr>"

definition ride_no_status :: "string row" where
  "ride_no_status = blank_row\<lparr>Booking_Value := Number 50, Is_Successful := 1,
     Is_Customer_Cancel := 1, Is_Driver_Cancel := 1\<rparr>"

definition ride_standing :: "string row" where
  "ride_standing = blank_row\<lparr>Booking_Status := Text ''Success'', Customer_ID := Text ''CID3'',
     Vehicle_Type := Text ''Auto'', Booking_Value := Number 100, Ride_Distance := Number 0\<rparr>"



text \<open>A disk without the CSV file and without the database.\<close>

definition no_database :: "string database" where
  "no_database = \<lparr>clean_csv = None, rides = None, vehicle_summary = None,
     daily_summary = None, customer_summary = None\<rparr>"

section \<open>Column by column: what each cleaning step assigns\<close>

lemma replace_nulls_fields:
  "dt (replace_nulls r) = dt r"
  "Booking_Status (replace_nulls r) = replace_null (Booking_Status r)"
  "Customer_ID (replace_nulls r) = replace_null (Customer_ID r)"
  "Vehicle_Type (replace_nulls r) = replace_null (Vehicle_Type r)"
  "V_TAT (replace_nulls r) = replace_null (V_TAT r)"
  "C_TAT (replace_nulls r) = replace_null (C_TAT r)"
  "Booking_Value (replace_nulls r) = replace_null (Booking_Value r)"
  "Payment_Method (replace_nulls r) = replace_null (Payment_Method r)"
  "Ride_Distance (replace_nulls r) = replace_null (Ride_Distance r)"
  "Driver_Ratings (replace_nulls r) = replace_null (Driver_Ratings r)"
  "Customer_Rating (replace_nulls r) = replace_null (Customer_Rating r)"
  "other (replace_nulls r) = map replace_null (other r)"
  "Is_Successful (replace_nulls r) = Is_Successful r"
  "Is_Customer_Cancel (replace_nulls r) = Is_Customer_Cancel r"
  "Is_Driver_Cancel (replace_nulls r) = Is_Driver_Cancel r"
  "Revenue_Per_KM (replace_nulls r) = replace_null (Revenue_Per_KM r)"
  "row.more (replace_nulls r) = row.more r"
  by (simp_all add: replace_nulls_def)

lemma convert_numeric_fields:
  "dt (convert_numeric lib r) = dt r"
  "Booking_Status (convert_numeric lib r) = Booking_Status r"
  "Customer_ID (convert_numeric lib r) = Customer_ID r"
  "Vehicle_Type (convert_numeric lib r) = Vehicle_Type r"
  "V_TAT (convert_numeric lib r) = to_numeric (parse_number lib) (V_TAT r)"
  "C_TAT (convert_numeric lib r) = to_numeric (parse_number lib) (C_TAT r)"
  "Booking_Value (convert_numeric lib r) = to_numeric (parse_number lib) (Booking_Value r)"
  "Payment_Method (convert_numeric lib r) = Payment_Method r"
  "Ride_Distance (convert_numeric lib r) = to_numeric (parse_number lib) (Ride_Distance r)"
  "Driver_Ratings (convert_numeric lib r) = to_numeric (parse_number lib) (Driver_Ratings r)"
  "Customer_Rating (convert_numeric lib r) = to_numeric (parse_number lib) (Customer_Rating r)"
  "other (convert_numeric lib r) = other r"
  "Is_Successful (convert_numeric lib r) = Is_Successful r"
  "Is_Customer_Cancel (convert_numeric lib r) = Is_Customer_Cancel r"
  "Is_Driver_Cancel (convert_numeric lib r) = Is_Driver_Cancel r"
  "Revenue_Per_KM (convert_numeric lib r) = Revenue_Per_KM r"
  "row.more (convert_numeric lib r) = row.more r"
  by (simp_all add: convert_numeric_def)

lemma derive_flags_fields:
  "dt (derive_flags r) = dt r"
  "Booking_Status (derive_flags r) = Booking_Status r"
  "Customer_ID (derive_flags r) = Customer_ID r"
  "Vehicle_Type (derive_flags r) = Vehicle_Type r"
  "V_TAT (derive_flags r) = V_TAT r"
  "C_TAT (derive_flags r) = C_TAT r"
  "Booking_Value (derive_flags r) = Booking_Value r"
  "Payment_Method (derive_flags r) = Payment_Method r"
  "Ride_Distance (derive_flags r) = Ride_Distance r"
  "Driver_Ratings (derive_flags r) = Driver_Ratings r"
  "Customer_Rating (derive_flags r) = Customer_Rating r"
  "other (derive_flags r) = other r"
  "Is_Successful (derive_flags r) = astype_int (Booking_Status r = Text ''Success'')"
  "Is_Customer_Cancel (derive_flags r) = astype_int (str_contains ''Customer'' (Booking_Status r))"
  "Is_Driver_Cancel (derive_flags r) = astype_int (str_contains ''Driver'' (Booking_Status r))"
  "Revenue_Per_KM (derive_flags r) = Revenue_Per_KM r"
  "row.more (derive_flags r) = row.more r"
  by (simp_all add: derive_flags_def)

lemma derive_revenue_fields:
  "dt (derive_revenue r) = dt r"
  "Booking_Status (derive_revenue r) = Booking_Status r"
  "Customer_ID (derive_revenue r) = Customer_ID r"
  "Vehicle_Type (derive_revenue r) = Vehicle_Type r"
  "V_TAT (derive_revenue r) = V_TAT r"
  "C_TAT (derive_revenue r) = C_TAT r"
  "Booking_Value (derive_revenue r) = Booking_Value r"
  "Payment_Method (derive_revenue r) = Payment_Method r"
  "Ride_Distance (derive_revenue r) = Ride_Distance r"
  "Driver_Ratings (derive_revenue r) = Driver_Ratings r"
  "Customer_Rating (derive_revenue r) = Customer_Rating r"
  "other (derive_revenue r) = other r"
  "Is_Successful (derive_revenue r) = Is_Successful r"
  "Is_Customer_Cancel (derive_revenue r) = Is_Customer_Cancel r"
  "Is_Driver_Cancel (derive_revenue r) = Is_Driver_Cancel r"
  "Revenue_Per_KM (derive_revenue r) = np_where (cell_gt0 (Ride_Distance r) \<and> Is_Successful r = 1)
         (cell_div (Booking_Value r) (Ride_Distance r)) NaN"
  "row.more (derive_revenue r) = row.more r"
  by (simp_all add: derive_revenue_def)

lemma fill_missing_fields:
  "dt (fill_missing r) = dt r"
  "Booking_Status (fill_missing r) = Booking_Status r"
  "Customer_ID (fill_missing r) = Customer_ID r"
  "Vehicle_Type (fill_missing r) = Vehicle_Type r"
  "V_TAT (fill_missing r) = V_TAT r"
  "C_TAT (fill_missing r) = C_TAT r"
  "Booking_Value (fill_missing r) = Booking_Value r"
  "Payment_Method (fill_missing r) = (if Booking_Status r = Text ''Success'' \<and> isna (Payment_Method r) then Text ''Cash''
        else Payment_Method r)"
  "Ride_Distance (fill_missing r) = (if Booking_Status r \<noteq> Text ''Success'' then fillna0 (Ride_Distance r)
        else Ride_Distance r)"
  "Driver_Ratings (fill_missing r) = Driver_Ratings r"
  "Customer_Rating (fill_missing r) = Customer_Rating r"
  "other (fill_missing r) = other r"
  "Is_Successful (fill_missing r) = Is_Successful r"
  "Is_Customer_Cancel (fill_missing r) = Is_Customer_Cancel r"
  "Is_Driver_Cancel (fill_missing r) = Is_Driver_Cancel r"
  "Revenue_Per_KM (fill_missing r) = Revenue_Per_KM r"
  "row.more (fill_missing r) = row.more r"
  by (simp_all add: fill_missing_def)

lemmas step_fields = replace_nulls_fields convert_numeric_fields derive_flags_fields
  derive_revenue_fields fill_missing_fields

lemma clean_row_fields:
  "dt (clean_row lib d r) = d"
  "Booking_Status (clean_row lib d r) = replace_null (Booking_Status r)"
  "Customer_ID (clean_row lib d r) = replace_null (Customer_ID r)"
  "Vehicle_Type (clean_row lib d r) = replace_null (Vehicle_Type r)"
  "V_TAT (clean_row lib d r) = to_numeric (parse_number lib) (replace_null (V_TAT r))"
  "C_TAT (clean_row lib d r) = to_numeric (parse_number lib) (replace_null (C_TAT r))"
  "Booking_Value (clean_row lib d r) = to_numeric (parse_number lib) (replace_null (Booking_Value r))"
  "Driver_Ratings (clean_row lib d r) = to_numeric (parse_number lib) (replace_null (Driver_Ratings r))"
  "Customer_Rating (clean_row lib d r) = to_numeric (parse_number lib) (replace_null (Customer_Rating r))"
  "other (clean_row lib d r) = map replace_null (other r)"
  "row.more (clean_row lib d r) = row.more r"
  "Is_Successful (clean_row lib d r) = astype_int (replace_null (Booking_Status r) = Text ''Success'')"
  "Is_Customer_Cancel (clean_row lib d r) = astype_int (str_contains ''Customer'' (replace_null (Booking_Status r)))"
  "Is_Driver_Cancel (clean_row lib d r) = astype_int (str_contains ''Driver'' (replace_null (Booking_Status r)))"
  "Ride_Distance (clean_row lib d r) =
     (if replace_null (Booking_Status r) \<noteq> Text ''Success''
      then fillna0 (to_numeric (parse_number lib) (replace_null (Ride_Distance r)))
      else to_numeric (parse_number lib) (replace_null (Ride_Distance r)))"
  "Payment_Method (clean_row lib d r) =
     (if replace_null (Booking_Status r) = Text ''Success'' \<and> isna (replace_null (Payment_Method r))
      then Text ''Cash'' else replace_null (Payment_Method r))"
  "Revenue_Per_KM (clean_row lib d r) =
     np_where (cell_gt0 (to_numeric (parse_number lib) (replace_null (Ride_Distance r)))
               \<and> astype_int (replace_null (Booking_Status r) = Text ''Success'') = 1)
       (cell_div (to_numeric (parse_number lib) (replace_null (Booking_Value r)))
                 (to_numeric (parse_number lib) (replace_null (Ride_Distance r)))) NaN"
  by (simp_all add: clean_row_def step_fields cong: if_cong)

lemma cell_of_float_simps:
  "cell_of_float x \<noteq> Text s" "to_numeric p (cell_of_float x) = cell_of_float x"
  "replace_null (cell_of_float x) = cell_of_float x" "fillna0 (cell_of_float x) = cell_of_float x"
  by (cases x; simp add: replace_null_def fillna0_def)+

lemma to_numeric_not_Text: "to_numeric p c \<noteq> Text s"
  by (cases c) (auto simp: cell_of_float_simps split: option.splits)


lemma replace_null_idem: "replace_null (replace_null c) = replace_null c"
  by (simp add: replace_null_def)





lemma map_replace_null_idem: "map replace_null (map replace_null cs) = map replace_null cs"
  by (simp add: replace_null_idem)


lemma replace_null_Success: "replace_null (Text ''Success'') = Text ''Success''"
  by (simp add: replace_null_def)

lemma those_rows_map_Some: "those_rows (map Some ys) = Some ys"
  by (induction ys) simp_all

lemma those_rows_SomeD: "those_rows xs = Some ys \<Longrightarrow> xs = map Some ys"
  by (induction xs arbitrary: ys rule: those_rows.induct) (auto split: option.splits)

section \<open>Cleaning a cleaned row\<close>





section \<open>Where the rows of the cleaned frame come from\<close>

lemma transform_row_SomeD:
  "transform_row lib r0 = Some r \<Longrightarrow>
     \<exists>d. datetime_columns lib (dt r0) = Some d \<and> r = clean_row lib d r0"
  by (auto simp: transform_row_def split: option.splits)

lemma transformed_length: "transformed lib rows = Some rs \<Longrightarrow> length rs = length rows"
proof -
  assume "transformed lib rows = Some rs"
  then have "map (transform_row lib) rows = map Some rs"
    unfolding transformed_def by (rule those_rows_SomeD)
  then have "length (map (transform_row lib) rows) = length (map Some rs)"
    by simp
  then show ?thesis by simp
qed

lemma transformed_origin:
  assumes "transformed lib rows = Some rs" and "r \<in> set rs"
  shows "\<exists>r0\<in>set rows. \<exists>d. datetime_columns lib (dt r0) = Some d \<and> r = clean_row lib d r0"
proof -
  from assms(1) have eq: "map (transform_row lib) rows = map Some rs"
    unfolding transformed_def by (rule those_rows_SomeD)
  from assms(2) have "Some r \<in> set (map Some rs)" by simp
  with eq have "Some r \<in> set (map (transform_row lib) rows)" by simp
  then obtain r0 where "r0 \<in> set rows" and "transform_row lib r0 = Some r" by auto
  then show ?thesis using transform_row_SomeD by blast
qed

lemma clean_data_Some:
  "clean_data lib (Some rows) = Inr (Some out) \<longleftrightarrow>
     (\<exists>rs. transformed lib rows = Some rs \<and> str_accessor rows \<and> out = drop_invalid rs)"
  by (auto simp: clean_data_def split: option.splits)

lemma fillna0_not_Text: "fillna0 (to_numeric p c) \<noteq> Text s"
  by (simp add: fillna0_def to_numeric_not_Text)

lemma valid_cell_iff:
  "(\<And>s. c \<noteq> Text s) \<Longrightarrow> (cell_ge0 c \<or> isna c) \<longleftrightarrow> \<not> present_and_negative c"
  by (cases c) (auto simp: isna_def present_and_negative_def not_less)

lemma valid_booking_value_iff:
  "valid_booking_value (clean_row lib d r) \<longleftrightarrow>
     \<not> present_and_negative (Booking_Value (clean_row lib d r))"
  unfolding valid_booking_value_def
  by (rule valid_cell_iff) (simp add: clean_row_fields to_numeric_not_Text)

lemma Ride_Distance_not_Text: "Ride_Distance (clean_row lib d r) \<noteq> Text s"
  by (simp add: clean_row_fields to_numeric_not_Text fillna0_not_Text)

lemma valid_ride_distance_iff:
  "valid_ride_distance (clean_row lib d r) \<longleftrightarrow>
     \<not> present_and_negative (Ride_Distance (clean_row lib d r))"
  unfolding valid_ride_distance_def
  by (rule valid_cell_iff) (rule Ride_Distance_not_Text)

lemma clean_data_cleaned_row:
  assumes "clean_data lib (Some rows) = Inr (Some out)" and "r \<in> set out"
  shows "\<exists>r0\<in>set rows. \<exists>d. datetime_columns lib (dt r0) = Some d \<and> r = clean_row lib d r0
           \<and> valid_booking_value r \<and> valid_ride_distance r"
proof -
  from assms(1) obtain rs where rs: "transformed lib rows = Some rs" and out: "out = drop_invalid rs"
    by (auto simp: clean_data_Some)
  from assms(2) out have "r \<in> set rs" and "valid_booking_value r" and "valid_ride_distance r"
    by (auto simp: drop_invalid_def)
  with transformed_origin [OF rs] show ?thesis by blast
qed

lemma astype_int_01: "astype_int b \<in> {0, 1}"
  by (simp add: astype_int_def)

lemma demo_transformed:
  "transformed demo_lib rows = Some (map (\<lambda>r. clean_row demo_lib (dt r) r) rows)"
proof -
  have "map (transform_row demo_lib) rows = map Some (map (\<lambda>r. clean_row demo_lib (dt r) r) rows)"
    by (simp add: transform_row_def demo_lib_def)
  then show ?thesis
    by (simp only: transformed_def those_rows_map_Some)
qed

lemma demo_clean_data:
  "str_accessor rows \<Longrightarrow> clean_data demo_lib (Some rows) =
     Inr (Some (drop_invalid (map (\<lambda>r. clean_row demo_lib (dt r) r) rows)))"
  by (simp add: clean_data_def demo_transformed)

lemma demo_clean_data_raises:
  "\<not> str_accessor rows \<Longrightarrow> clean_data demo_lib (Some rows) = Inl AttributeError"
  by (simp add: clean_data_def demo_transformed)

lemma blank_row_fields:
  "dt blank_row = ''2024-07-01''" "Booking_Status blank_row = NaN"
  "Booking_Value blank_row = NaN" "Ride_Distance blank_row = NaN"
  "Vehicle_Type blank_row = NaN" "Customer_ID blank_row = NaN"
  by (simp_all add: blank_row_def)

lemma replace_null_NaN: "replace_null NaN = NaN"
  by (simp add: replace_null_def)

lemma replace_null_Number: "replace_null (Number x) = Number x"
  by (simp add: replace_null_def)

lemma ride_B1_fields:
  "dt ride_B1 = ''2024-07-01''" "Booking_Status ride_B1 = Text ''Success''"
  "Booking_Value ride_B1 = Number 100" "Ride_Distance ride_B1 = Number 10"
  "Payment_Method ride_B1 = NaN" "Vehicle_Type ride_B1 = Text ''Auto''"
  "Customer_ID ride_B1 = Text ''CID1''"
  by (simp_all add: ride_B1_def blank_row_def)

lemma ride_negative_fields:
  "dt ride_negative = ''2024-07-01''" "Booking_Status ride_negative = Text ''Success''"
  "Booking_Value ride_negative = Number (- 5)" "Ride_Distance ride_negative = Number 10"
  by (simp_all add: ride_negative_def blank_row_def)

lemma ride_cancelled_fields:
  "dt ride_cancelled = ''2024-07-01''"
  "Booking_Status ride_cancelled = Text ''Cancelled by Customer''"
  "Booking_Value ride_cancelled = Number 50" "Ride_Distance ride_cancelled = Number 10"
  "Payment_Method ride_cancelled = NaN" "Vehicle_Type ride_cancelled = Text ''Auto''"
  "Customer_ID ride_cancelled = Text ''CID2''"
  by (simp_all add: ride_cancelled_def blank_row_def)

lemma ride_no_status_fields:
  "dt ride_no_status = ''2024-07-01''" "Booking_Status ride_no_status = NaN"
  "Booking_Value ride_no_status = Number 50" "Ride_Distance ride_no_status = NaN"
  "Is_Successful ride_no_status = 1" "Is_Customer_Cancel ride_no_status = 1"
  "Is_Driver_Cancel ride_no_status = 1"
  by (simp_all add: ride_no_status_def blank_row_def)

lemma replace_null_Text: "s \<noteq> ''null'' \<Longrightarrow> replace_null (Text s) = Text s"
  by (simp add: replace_null_def)

lemma demo_clean_blank:
  "clean_data demo_lib (Some [blank_row]) = Inl AttributeError"
  by (simp add: demo_clean_data_raises str_accessor_def blank_row_fields replace_null_NaN)

lemma demo_clean_no_status:
  "clean_data demo_lib (Some [ride_no_status, ride_B1]) =
     Inr (Some [clean_row demo_lib ''2024-07-01'' ride_no_status,
                clean_row demo_lib ''2024-07-01'' ride_B1])"
  by (simp add: demo_clean_data str_accessor_def drop_invalid_def valid_booking_value_def
      valid_ride_distance_def clean_row_fields ride_no_status_fields ride_B1_fields
      replace_null_NaN replace_null_Number replace_null_Success isna_def fillna0_def)

section \<open>The two row filters as one\<close>

lemma drop_invalid_filter:
  assumes "transformed lib rows = Some rs"
  shows "drop_invalid rs =
           filter (\<lambda>r. \<not> present_and_negative (Booking_Value r)
                      \<and> \<not> present_and_negative (Ride_Distance r)) rs"
proof -
  have "filter valid_ride_distance (filter valid_booking_value rs) =
          filter (\<lambda>r. valid_booking_value r \<and> valid_ride_distance r) rs"
    by (simp add: conj_commute)
  also have "\<dots> = filter (\<lambda>r. \<not> present_and_negative (Booking_Value r)
                      \<and> \<not> present_and_negative (Ride_Distance r)) rs"
  proof (rule filter_cong [OF refl])
    fix r assume "r \<in> set rs"
    with transformed_origin [OF assms] obtain r0 d where "r = clean_row lib d r0" by blast
    then show "(valid_booking_value r \<and> valid_ride_distance r) =
                 (\<not> present_and_negative (Booking_Value r)
                      \<and> \<not> present_and_negative (Ride_Distance r))"
      by (simp only: valid_booking_value_iff valid_ride_distance_iff)
  qed
  finally show ?thesis by (simp only: drop_invalid_def)
qed

lemma length_filter_split:
  "length (filter (\<lambda>x. \<not> P x \<and> \<not> Q x) xs) + length (filter (\<lambda>x. P x \<or> Q x) xs) = length xs"
  by (induction xs) auto

lemma demo_clean_two:
  "clean_data demo_lib (Some [ride_B1, ride_negative]) =
     Inr (Some [clean_row demo_lib ''2024-07-01'' ride_B1])"
  by (simp add: demo_clean_data str_accessor_def drop_invalid_def valid_booking_value_def
      valid_ride_distance_def clean_row_fields ride_B1_fields ride_negative_fields
      replace_null_Number replace_null_Success isna_def)

section \<open>The frame of \<open>process_data\<close>, and the guard of \<open>clean_data\<close>\<close>

lemma derive_success_fields:
  "dt (derive_success r) = dt r"
  "Booking_Status (derive_success r) = Booking_Status r"
  "Customer_ID (derive_success r) = Customer_ID r"
  "Vehicle_Type (derive_success r) = Vehicle_Type r"
  "Booking_Value (derive_success r) = Booking_Value r"
  "Ride_Distance (derive_success r) = Ride_Distance r"
  "Driver_Ratings (derive_success r) = Driver_Ratings r"
  "Customer_Rating (derive_success r) = Customer_Rating r"
  "Is_Successful (derive_success r) = astype_int (Booking_Status r = Text ''Success'')"
  "Revenue_Per_KM (derive_success r) = Revenue_Per_KM r"
  by (simp_all add: derive_success_def)

lemma derive_quotient_fields:
  "dt (derive_quotient r) = dt r"
  "Booking_Status (derive_quotient r) = Booking_Status r"
  "Customer_ID (derive_quotient r) = Customer_ID r"
  "Vehicle_Type (derive_quotient r) = Vehicle_Type r"
  "Booking_Value (derive_quotient r) = Booking_Value r"
  "Ride_Distance (derive_quotient r) = Ride_Distance r"
  "Driver_Ratings (derive_quotient r) = Driver_Ratings r"
  "Customer_Rating (derive_quotient r) = Customer_Rating r"
  "Is_Successful (derive_quotient r) = Is_Successful r"
  "Revenue_Per_KM (derive_quotient r) = cell_div (Booking_Value r) (Ride_Distance r)"
  by (simp_all add: derive_quotient_def)

lemma process_row_fields:
  "dt (process_row lib d r) = d"
  "Booking_Status (process_row lib d r) = replace_null (Booking_Status r)"
  "Customer_ID (process_row lib d r) = replace_null (Customer_ID r)"
  "Vehicle_Type (process_row lib d r) = replace_null (Vehicle_Type r)"
  "Booking_Value (process_row lib d r) = to_numeric (parse_number lib) (replace_null (Booking_Value r))"
  "Ride_Distance (process_row lib d r) = to_numeric (parse_number lib) (replace_null (Ride_Distance r))"
  "Driver_Ratings (process_row lib d r) = to_numeric (parse_number lib) (replace_null (Driver_Ratings r))"
  "Customer_Rating (process_row lib d r) = to_numeric (parse_number lib) (replace_null (Customer_Rating r))"
  "Is_Successful (process_row lib d r) = astype_int (replace_null (Booking_Status r) = Text ''Success'')"
  "Revenue_Per_KM (process_row lib d r) =
     cell_div (to_numeric (parse_number lib) (replace_null (Booking_Value r)))
              (to_numeric (parse_number lib) (replace_null (Ride_Distance r)))"
  by (simp_all add: process_row_def derive_quotient_fields derive_success_fields
      convert_numeric_fields replace_nulls_fields)

lemma demo_preprocessed:
  "preprocessed demo_lib rows = Some (map (\<lambda>r. process_row demo_lib (dt r) r) rows)"
proof -
  have "map (preprocess_row demo_lib) rows = map Some (map (\<lambda>r. process_row demo_lib (dt r) r) rows)"
    by (simp add: preprocess_row_def demo_lib_def)
  then show ?thesis
    by (simp only: preprocessed_def those_rows_map_Some)
qed

lemma process_data_Sheet:
  "preprocessed lib rows = Some df \<Longrightarrow>
     process_data lib (Sheet rows) db =
       (True, db\<lparr>clean_csv := Some df, rides := Some df,
          vehicle_summary := create_table_if_not_exists (vehicle_summary db) (vehicle_summary_select df),
          daily_summary := create_table_if_not_exists (daily_summary db) (daily_summary_select lib df),
          customer_summary := create_table_if_not_exists (customer_summary db) (customer_summary_select df)\<rparr>)"
  by (simp add: process_data_def create_summary_tables_def)

lemma rides_process_data:
  "preprocessed lib rows = Some df \<Longrightarrow> rides (snd (process_data lib (Sheet rows) db)) = Some df"
  by (simp add: process_data_Sheet)

lemma ride_standing_fields:
  "dt ride_standing = ''2024-07-01''" "Booking_Status ride_standing = Text ''Success''"
  "Booking_Value ride_standing = Number 100" "Ride_Distance ride_standing = Number 0"
  "Vehicle_Type ride_standing = Text ''Auto''" "Customer_ID ride_standing = Text ''CID3''"
  by (simp_all add: ride_standing_def blank_row_def)

lemma replace_null_Cancelled:
  "replace_null (Text ''Cancelled by Customer'') = Text ''Cancelled by Customer''"
  by (simp add: replace_null_def)

lemma clean_data_revenue_guarded:
  assumes "clean_data lib (Some rows) = Inr (Some out)" and "r \<in> set out"
  shows "Revenue_Per_KM r =
           (if cell_gt0 (Ride_Distance r) \<and> Is_Successful r = 1
            then cell_div (Booking_Value r) (Ride_Distance r) else NaN)"
proof -
  from clean_data_cleaned_row [OF assms] obtain r0 d where r: "r = clean_row lib d r0"
    by blast
  show ?thesis
  proof (cases "replace_null (Booking_Status r0) = Text ''Success''")
    case True
    then show ?thesis by (simp add: r clean_row_fields np_where_def astype_int_def)
  next
    case False
    then show ?thesis by (simp add: r clean_row_fields np_where_def astype_int_def)
  qed
qed

section \<open>Groups and their sizes; the summary of two sample rides\<close>

lemma sum_list_flags:
  "(\<And>r. r \<in> set g \<Longrightarrow> f r \<in> {0, 1 :: int}) \<Longrightarrow>
     sum_list (map f g) = int (length (filter (\<lambda>r. f r = 1) g))"
  by (induction g) auto

lemma sum_group_sizes:
  "finite S \<Longrightarrow> key ` set rows \<subseteq> S \<Longrightarrow>
     (\<Sum>k\<in>S. length (filter (\<lambda>r. key r = k) rows)) = length rows"
proof (induction rows)
  case Nil
  then show ?case by simp
next
  case (Cons r rows)
  have "(\<Sum>k\<in>S. length (filter (\<lambda>r. key r = k) (r # rows))) =
          (\<Sum>k\<in>S. (if key r = k then 1 else 0) + length (filter (\<lambda>r. key r = k) rows))"
    by (rule sum.cong) auto
  also have "\<dots> = (\<Sum>k\<in>S. if key r = k then 1 else 0) + length rows"
    using Cons by (simp add: sum.distrib)
  also have "(\<Sum>k\<in>S. if key r = k then 1 else 0) = (1::nat)"
    using Cons.prems by (simp add: sum.delta)
  finally show ?case by simp
qed

lemma group_sizes_remdups:
  "sum_list (map (\<lambda>k. length (filter (\<lambda>r. key r = k) rows)) (remdups (map key rows))) = length rows"
proof -
  have "sum_list (map (\<lambda>k. length (filter (\<lambda>r. key r = k) rows)) (remdups (map key rows))) =
          (\<Sum>k\<in>set (remdups (map key rows)). length (filter (\<lambda>r. key r = k) rows))"
    by (rule sum_list_distinct_conv_sum_set) simp
  also have "\<dots> = length rows"
    by (rule sum_group_sizes) auto
  finally show ?thesis .
qed

lemma group_by_nonempty:
  "(k, g) \<in> set (group_by key rows) \<Longrightarrow> g = filter (\<lambda>r. key r = k) rows \<and> g \<noteq> [] \<and> set g \<subseteq> set rows"
  by (auto simp: group_by_def filter_empty_conv)

lemma vehicle_summary_totals:
  "map Total_Bookings (vehicle_summary_query rows) =
     map (\<lambda>k. Number (of_nat (length (filter (\<lambda>r. Vehicle_Type r = k) rows))))
       (remdups (map Vehicle_Type rows))"
  by (simp add: vehicle_summary_query_def group_by_def Total_Bookings_def sql_count_def comp_def)

lemma create_database_fresh:
  "vehicle_summary db = None \<Longrightarrow>
     vehicle_summary (snd (create_database lib (Some rows) db)) = Some (vehicle_summary_query rows)"
  by (simp add: create_database_def OlaDataProcessor_create_summary_tables_def
      create_table_if_not_exists_def)

lemma vehicle_summary_line:
  assumes "l \<in> set (vehicle_summary_query rows)"
  shows "\<exists>g. g \<noteq> [] \<and> set g \<subseteq> set rows \<and> Total_Bookings l = Number (of_nat (length g))
           \<and> Successful_Bookings l = Number (of_int (sum_list (map Is_Successful g)))"
proof -
  from assms obtain k g where kg: "(k, g) \<in> set (group_by Vehicle_Type rows)"
    and l: "l = [k, sql_count g, sql_sum_int (map Is_Successful g),
      sql_avg (map Booking_Value g), sql_sum (map Booking_Value g),
      sql_avg (map Ride_Distance g), sql_sum (map Ride_Distance g),
      sql_avg (map Driver_Ratings g), sql_avg (map Customer_Rating g)]"
    by (auto simp: vehicle_summary_query_def)
  from group_by_nonempty [OF kg] have g: "g \<noteq> []" "set g \<subseteq> set rows" by blast+
  have "Total_Bookings l = Number (of_nat (length g))"
    by (simp add: l Total_Bookings_def sql_count_def)
  moreover have "Successful_Bookings l = Number (of_int (sum_list (map Is_Successful g)))"
    using g(1) by (simp add: l Successful_Bookings_def sql_sum_int_def)
  ultimately show ?thesis using g by blast
qed

lemma cleaned_B1_fields:
  "Vehicle_Type (clean_row demo_lib d ride_B1) = Text ''Auto''"
  "Customer_ID (clean_row demo_lib d ride_B1) = Text ''CID1''"
  "Booking_Status (clean_row demo_lib d ride_B1) = Text ''Success''"
  "Is_Successful (clean_row demo_lib d ride_B1) = 1"
  "Booking_Value (clean_row demo_lib d ride_B1) = Number 100"
  "Ride_Distance (clean_row demo_lib d ride_B1) = Number 10"
  "Driver_Ratings (clean_row demo_lib d ride_B1) = NaN"
  "Customer_Rating (clean_row demo_lib d ride_B1) = NaN"
  "dt (clean_row demo_lib d ride_B1) = d"
  by (simp_all add: clean_row_fields ride_B1_def blank_row_def replace_null_def astype_int_def)

lemma cleaned_cancelled_fields:
  "Vehicle_Type (clean_row demo_lib d ride_cancelled) = Text ''Auto''"
  "Customer_ID (clean_row demo_lib d ride_cancelled) = Text ''CID2''"
  "Booking_Status (clean_row demo_lib d ride_cancelled) = Text ''Cancelled by Customer''"
  "Is_Successful (clean_row demo_lib d ride_cancelled) = 0"
  "Booking_Value (clean_row demo_lib d ride_cancelled) = Number 50"
  "Ride_Distance (clean_row demo_lib d ride_cancelled) = Number 10"
  "Driver_Ratings (clean_row demo_lib d ride_cancelled) = NaN"
  "Customer_Rating (clean_row demo_lib d ride_cancelled) = NaN"
  "dt (clean_row demo_lib d ride_cancelled) = d"
  by (simp_all add: clean_row_fields ride_cancelled_def blank_row_def replace_null_def
      astype_int_def fillna0_def)

lemma demo_clean_pair:
  "clean_data demo_lib (Some [ride_B1, ride_cancelled]) =
     Inr (Some [clean_row demo_lib ''2024-07-01'' ride_B1,
                clean_row demo_lib ''2024-07-01'' ride_cancelled])"
  by (simp add: demo_clean_data str_accessor_def drop_invalid_def valid_booking_value_def
      valid_ride_distance_def cleaned_B1_fields cleaned_cancelled_fields ride_B1_fields
      ride_cancelled_fields replace_null_Success isna_def)

lemma demo_vehicle_summary:
  "vehicle_summary_query [clean_row demo_lib ''2024-07-01'' ride_B1,
                          clean_row demo_lib ''2024-07-01'' ride_cancelled] =
     [[Text ''Auto'', Number 2, Number 1, Number 75, Number 150, Number 10, Number 20, NaN, NaN]]"
  by (simp add: vehicle_summary_query_def group_by_def cleaned_B1_fields cleaned_cancelled_fields
      sql_count_def sql_sum_int_def sql_avg_def sql_sum_def)

lemma no_database_fields:
  "clean_csv no_database = None" "rides no_database = None" "vehicle_summary no_database = None"
  "daily_summary no_database = None" "customer_summary no_database = None"
  by (simp_all add: no_database_def)

lemma processed_B1_fields:
  "Vehicle_Type (process_row demo_lib d ride_B1) = Text ''Auto''"
  "Customer_ID (process_row demo_lib d ride_B1) = Text ''CID1''"
  "Booking_Status (process_row demo_lib d ride_B1) = Text ''Success''"
  "Is_Successful (process_row demo_lib d ride_B1) = 1"
  "Booking_Value (process_row demo_lib d ride_B1) = Number 100"
  "Ride_Distance (process_row demo_lib d ride_B1) = Number 10"
  "Driver_Ratings (process_row demo_lib d ride_B1) = NaN"
  "Customer_Rating (process_row demo_lib d ride_B1) = NaN"
  "dt (process_row demo_lib d ride_B1) = d"
  by (simp_all add: process_row_fields ride_B1_def blank_row_def replace_null_def astype_int_def)

lemma processed_cancelled_fields:
  "Vehicle_Type (process_row demo_lib d ride_cancelled) = Text ''Auto''"
  "Customer_ID (process_row demo_lib d ride_cancelled) = Text ''CID2''"
  "Booking_Status (process_row demo_lib d ride_cancelled) = Text ''Cancelled by Customer''"
  "Is_Successful (process_row demo_lib d ride_cancelled) = 0"
  "Booking_Value (process_row demo_lib d ride_cancelled) = Number 50"
  "Ride_Distance (process_row demo_lib d ride_cancelled) = Number 10"
  "Driver_Ratings (process_row demo_lib d ride_cancelled) = NaN"
  "Customer_Rating (process_row demo_lib d ride_cancelled) = NaN"
  "dt (process_row demo_lib d ride_cancelled) = d"
  by (simp_all add: process_row_fields ride_cancelled_def blank_row_def replace_null_def
      astype_int_def)

lemma floor_half: "\<lfloor>(of_int m :: rat) + 1 / 2\<rfloor> = m"
  by (rule floor_unique) simp_all

lemma round2_of_int: "round2 (of_int n) = of_int n"
proof (cases "0 \<le> n")
  case True
  have "\<lfloor>(of_int n :: rat) * 100 + 1 / 2\<rfloor> = n * 100"
    using floor_half [of "n * 100"] by simp
  with True show ?thesis by (simp add: round2_def)
next
  case False
  have "\<lfloor>- (of_int n :: rat) * 100 + 1 / 2\<rfloor> = - n * 100"
    using floor_half [of "- n * 100"] by simp
  with False show ?thesis by (simp add: round2_def)
qed

lemma round2_values: "round2 75 = 75" "round2 100 = 100" "round2 10 = 10" "round2 50 = 50"
  using round2_of_int [of 75] round2_of_int [of 100] round2_of_int [of 10] round2_of_int [of 50]
  by simp_all

lemma demo_vehicle_select:
  "vehicle_summary_select [process_row demo_lib ''2024-07-01'' ride_B1,
                           process_row demo_lib ''2024-07-01'' ride_cancelled] =
     [[Text ''Auto'', Number 2, Number 1, Number 75, Number 100, Number 10, Number 10, NaN, NaN]]"
  by (simp add: vehicle_summary_select_def group_by_def processed_B1_fields
      processed_cancelled_fields when_successful_def sql_count_def sql_sum_int_def sql_avg_def
      sql_sum_def round2_values)

lemma process_data_fresh:
  "preprocessed lib rows = Some df \<Longrightarrow> vehicle_summary db = None \<Longrightarrow>
     vehicle_summary (snd (process_data lib (Sheet rows) db)) = Some (vehicle_summary_select df)"
  by (simp add: process_data_Sheet create_table_if_not_exists_def)

section \<open>What the two pipelines write\<close>

lemma create_database_Some:
  "create_database lib (Some rows) db =
     (True, db\<lparr>rides := Some rows,
        vehicle_summary := create_table_if_not_exists (vehicle_summary db) (vehicle_summary_query rows),
        daily_summary := create_table_if_not_exists (daily_summary db) (daily_summary_query lib rows),
        customer_summary :=
          create_table_if_not_exists (customer_summary db) (customer_summary_query lib rows)\<rparr>)"
  by (simp add: create_database_def OlaDataProcessor_create_summary_tables_def)

lemma create_database_tables:
  "fst (create_database lib (Some rows) db) = True"
  "rides (snd (create_database lib (Some rows) db)) = Some rows"
  "vehicle_summary (snd (create_database lib (Some rows) db)) =
     create_table_if_not_exists (vehicle_summary db) (vehicle_summary_query rows)"
  "daily_summary (snd (create_database lib (Some rows) db)) =
     create_table_if_not_exists (daily_summary db) (daily_summary_query lib rows)"
  "customer_summary (snd (create_database lib (Some rows) db)) =
     create_table_if_not_exists (customer_summary db) (customer_summary_query lib rows)"
  by (simp_all add: create_database_Some)

lemma create_table_if_not_exists_simps:
  "create_table_if_not_exists None t = Some t"
  "create_table_if_not_exists (Some t') t = Some t'"
  by (simp_all add: create_table_if_not_exists_def)

lemma summary_tables_kept:
  "vehicle_summary db = Some v \<Longrightarrow> vehicle_summary (snd (create_database lib (Some rows) db)) = Some v"
  "daily_summary db = Some d \<Longrightarrow> daily_summary (snd (create_database lib (Some rows) db)) = Some d"
  "customer_summary db = Some c \<Longrightarrow> customer_summary (snd (create_database lib (Some rows) db)) = Some c"
  by (simp_all add: create_database_tables create_table_if_not_exists_simps)

lemma demo_clean_B1:
  "clean_data demo_lib (Some [ride_B1]) = Inr (Some [clean_row demo_lib ''2024-07-01'' ride_B1])"
  by (simp add: demo_clean_data str_accessor_def drop_invalid_def valid_booking_value_def
      valid_ride_distance_def cleaned_B1_fields ride_B1_fields replace_null_Success isna_def)

lemma demo_clean_cancelled:
  "clean_data demo_lib (Some [ride_cancelled]) =
     Inr (Some [clean_row demo_lib ''2024-07-01'' ride_cancelled])"
  by (simp add: demo_clean_data str_accessor_def drop_invalid_def valid_booking_value_def
      valid_ride_distance_def cleaned_cancelled_fields ride_cancelled_fields
      replace_null_Cancelled isna_def)

lemma demo_vehicle_summary_B1:
  "vehicle_summary_query [clean_row demo_lib ''2024-07-01'' ride_B1] =
     [[Text ''Auto'', Number 1, Number 1, Number 100, Number 100, Number 10, Number 10, NaN, NaN]]"
  by (simp add: vehicle_summary_query_def group_by_def cleaned_B1_fields
      sql_count_def sql_sum_int_def sql_avg_def sql_sum_def)

lemma demo_vehicle_summary_cancelled:
  "vehicle_summary_query [clean_row demo_lib ''2024-07-01'' ride_cancelled] =
     [[Text ''Auto'', Number 1, Number 0, Number 50, Number 50, Number 10, Number 10, NaN, NaN]]"
  by (simp add: vehicle_summary_query_def group_by_def cleaned_cancelled_fields
      sql_count_def sql_sum_int_def sql_avg_def sql_sum_def)

lemma load_data_simps:
  "load_data Missing = None" "load_data Unreadable = None" "load_data (Sheet rows) = Some rows"
  by (simp_all add: load_data_def)

lemma process_data_no_sheet:
  "process_data lib Missing db = (False, db)" "process_data lib Unreadable db = (False, db)"
  by (simp_all add: process_data_def)

lemma preprocessed_Nil: "preprocessed lib [] = Some []"
  by (simp add: preprocessed_def)

section \<open>Orders of the top-customers query\<close>












lemma demo_top_customers_one:
  "top_customers_select [process_row demo_lib ''2024-07-01'' ride_B1] =
     [[Text ''CID1'', Number 1, Number 1, Number 100, Number 100, Number 100]]"
  by (simp add: top_customers_select_def group_by_def processed_B1_fields successful_def
      Total_Spent_def sql_count_def sql_avg_def sql_sum_def round2_values)


lemma demo_rides_one:
  "rides (snd (process_data demo_lib (Sheet [ride_B1]) no_database)) =
     Some [process_row demo_lib ''2024-07-01'' ride_B1]"
  by (simp add: rides_process_data [OF demo_preprocessed] ride_B1_fields)







section \<open>The derived flags\<close>

text \<open>
  Claim C10. In every row of the frame that \<open>clean_data\<close> returns, each of the flags
  \<open>Is_Successful\<close>, \<open>Is_Customer_Cancel\<close> and \<open>Is_Driver_Cancel\<close> is 0 or 1, and a row
  whose booking status is absent has all three flags 0.
\<close>

theorem flags_zero_or_one:
  assumes "clean_data lib (Some rows) = Inr (Some out)" and "r \<in> set out"
  shows "Is_Successful r \<in> {0, 1} \<and> Is_Customer_Cancel r \<in> {0, 1} \<and> Is_Driver_Cancel r \<in> {0, 1}
         \<and> (isna (Booking_Status r) \<longrightarrow>
              Is_Successful r = 0 \<and> Is_Customer_Cancel r = 0 \<and> Is_Driver_Cancel r = 0)"
proof -
  from clean_data_cleaned_row [OF assms] obtain r0 d where r: "r = clean_row lib d r0"
    by blast
  have absent: "isna (Booking_Status r) \<longrightarrow>
          Is_Successful r = 0 \<and> Is_Customer_Cancel r = 0 \<and> Is_Driver_Cancel r = 0"
    by (simp add: r clean_row_fields isna_def astype_int_def)
  have "Is_Successful r \<in> {0, 1}" "Is_Customer_Cancel r \<in> {0, 1}" "Is_Driver_Cancel r \<in> {0, 1}"
    unfolding r clean_row_fields by (rule astype_int_01)+
  with absent show ?thesis by blast
qed

theorem flags_zero_or_one_witness:
  "clean_data demo_lib (Some [ride_no_status, ride_B1]) =
     Inr (Some [clean_row demo_lib ''2024-07-01'' ride_no_status,
                clean_row demo_lib ''2024-07-01'' ride_B1])
   \<and> Is_Successful ride_no_status = 1
   \<and> isna (Booking_Status (clean_row demo_lib ''2024-07-01'' ride_no_status))
   \<and> Is_Successful (clean_row demo_lib ''2024-07-01'' ride_no_status) = 0
   \<and> Is_Customer_Cancel (clean_row demo_lib ''2024-07-01'' ride_no_status) = 0
   \<and> Is_Driver_Cancel (clean_row demo_lib ''2024-07-01'' ride_no_status) = 0"
proof -
  have na: "isna (Booking_Status (clean_row demo_lib ''2024-07-01'' ride_no_status))"
    by (simp add: clean_row_fields ride_no_status_fields replace_null_NaN isna_def)
  have mem: "clean_row demo_lib ''2024-07-01'' ride_no_status
               \<in> set [clean_row demo_lib ''2024-07-01'' ride_no_status,
                       clean_row demo_lib ''2024-07-01'' ride_B1]"
    by simp
  have junk: "Is_Successful ride_no_status = 1"
    by (rule ride_no_status_fields)
  from flags_zero_or_one [OF demo_clean_no_status mem] na demo_clean_no_status junk
  show ?thesis by blast
qed

section \<open>Rows with a negative value or distance\<close>

text \<open>
  Claim C6. Whenever \<open>clean_data\<close> returns a frame, that frame is the transformed input
  without exactly the rows whose booking value or ride distance is present and negative
  (rows where they are absent stay); every row kept has both columns absent or at least
  0; and the number of rows kept plus the number of rows dropped, which is the
  \<open>removed_count\<close> the method computes, is the number of input rows. The values compared
  are the ones after \<open>to_numeric\<close> and the fill of step 4, as in the code.
\<close>

theorem negative_rows_dropped:
  assumes "clean_data lib (Some rows) = Inr (Some out)"
  shows "\<exists>rs. transformed lib rows = Some rs \<and> length rs = length rows
           \<and> out = filter (\<lambda>r. \<not> present_and_negative (Booking_Value r)
                               \<and> \<not> present_and_negative (Ride_Distance r)) rs
           \<and> removed_count lib rows =
               Some (length (filter (\<lambda>r. present_and_negative (Booking_Value r)
                                        \<or> present_and_negative (Ride_Distance r)) rs))
           \<and> (\<forall>r\<in>set out. (isna (Booking_Value r) \<or> cell_ge0 (Booking_Value r))
                           \<and> (isna (Ride_Distance r) \<or> cell_ge0 (Ride_Distance r)))
           \<and> length out
               + length (filter (\<lambda>r. present_and_negative (Booking_Value r)
                                    \<or> present_and_negative (Ride_Distance r)) rs)
               = length rows"
proof -
  let ?neg = "\<lambda>r::'a row. present_and_negative (Booking_Value r) \<or> present_and_negative (Ride_Distance r)"
  let ?ok = "\<lambda>r::'a row. \<not> present_and_negative (Booking_Value r)
                               \<and> \<not> present_and_negative (Ride_Distance r)"
  from assms obtain rs where rs: "transformed lib rows = Some rs" and out: "out = drop_invalid rs"
    and acc: "str_accessor rows"
    by (auto simp: clean_data_Some)
  have len: "length rs = length rows" by (rule transformed_length [OF rs])
  have flt: "out = filter ?ok rs" unfolding out by (rule drop_invalid_filter [OF rs])
  have split: "length (filter ?ok rs) + length (filter ?neg rs) = length rs"
    by (rule length_filter_split)
  then have cnt: "length rs - length (drop_invalid rs) = length (filter ?neg rs)"
    using flt out by simp
  have rem: "removed_count lib rows = Some (length (filter ?neg rs))"
    by (simp add: removed_count_def rs acc cnt)
  have nonneg: "\<forall>r\<in>set out. (isna (Booking_Value r) \<or> cell_ge0 (Booking_Value r))
                           \<and> (isna (Ride_Distance r) \<or> cell_ge0 (Ride_Distance r))"
    unfolding out by (auto simp: drop_invalid_def valid_booking_value_def valid_ride_distance_def)
  from split flt len have total: "length out + length (filter ?neg rs) = length rows" by simp
  from rs len flt rem nonneg total show ?thesis by blast
qed

theorem negative_rows_dropped_witness:
  "clean_data demo_lib (Some [ride_B1, ride_negative]) =
     Inr (Some [clean_row demo_lib ''2024-07-01'' ride_B1])
   \<and> removed_count demo_lib [ride_B1, ride_negative] = Some 1"
proof -
  from negative_rows_dropped [OF demo_clean_two] obtain n
    where "removed_count demo_lib [ride_B1, ride_negative] = Some n"
      and "length [clean_row demo_lib ''2024-07-01'' ride_B1] + n = length [ride_B1, ride_negative]"
    by blast
  then have "removed_count demo_lib [ride_B1, ride_negative] = Some 1" by simp
  with demo_clean_two show ?thesis by simp
qed

section \<open>Cleaning twice\<close>




section \<open>Revenue per kilometre\<close>

text \<open>
  Claim C1 asks that the revenue per distance be absent on every cleaned row whose
  distance is not positive or whose success flag is not set. \<open>clean_data\<close> guards the
  quotient (\<open>clean_data_revenue_guarded\<close>); \<open>process_data\<close> of \<open>run_project.py\<close> does not:
  on a cancelled ride of value 50 over distance 10 it stores 5, and on a successful ride of
  distance 0 it stores an infinity, where \<open>clean_data\<close> stores nothing for both. No
  division raises in either.
\<close>

theorem process_data_quotient_unguarded:
  "rides (snd (process_data demo_lib (Sheet [ride_cancelled, ride_standing]) no_database)) =
     Some [process_row demo_lib ''2024-07-01'' ride_cancelled,
           process_row demo_lib ''2024-07-01'' ride_standing]
   \<and> Is_Successful (process_row demo_lib ''2024-07-01'' ride_cancelled) = 0
   \<and> Revenue_Per_KM (process_row demo_lib ''2024-07-01'' ride_cancelled) = Number 5
   \<and> Ride_Distance (process_row demo_lib ''2024-07-01'' ride_standing) = Number 0
   \<and> Revenue_Per_KM (process_row demo_lib ''2024-07-01'' ride_standing) = PInf
   \<and> Revenue_Per_KM (clean_row demo_lib ''2024-07-01'' ride_cancelled) = NaN
   \<and> Revenue_Per_KM (clean_row demo_lib ''2024-07-01'' ride_standing) = NaN"
proof (intro conjI)
  show "rides (snd (process_data demo_lib (Sheet [ride_cancelled, ride_standing]) no_database)) =
     Some [process_row demo_lib ''2024-07-01'' ride_cancelled,
           process_row demo_lib ''2024-07-01'' ride_standing]"
    by (simp add: rides_process_data [OF demo_preprocessed] ride_cancelled_fields
        ride_standing_fields)
qed (simp_all add: process_row_fields clean_row_fields ride_cancelled_fields ride_standing_fields
      replace_null_Cancelled replace_null_Success replace_null_Number astype_int_def np_where_def)

section \<open>Counts of the vehicle summary\<close>

text \<open>
  Claim C9. In the vehicle summary that \<open>_create_summary_tables\<close> selects from a cleaned
  frame, every line has \<open>Successful_Bookings\<close> at most \<open>Total_Bookings\<close>, and the
  \<open>Total_Bookings\<close> of all lines add up to the number of rows of the cleaned frame. This
  selection is what \<open>create_database\<close> stores as table \<open>vehicle_summary\<close> when no such table
  is there yet.
\<close>

theorem vehicle_summary_consistent:
  assumes "clean_data lib (Some raw) = Inr (Some rows)"
  shows "(\<forall>l\<in>set (vehicle_summary_query rows). \<exists>t s. Total_Bookings l = Number (of_nat t)
                  \<and> Successful_Bookings l = Number (of_nat s) \<and> s \<le> t)
         \<and> (\<exists>ns. map Total_Bookings (vehicle_summary_query rows) = map (\<lambda>n. Number (of_nat n)) ns
                  \<and> sum_list ns = length rows)
         \<and> (vehicle_summary db = None \<longrightarrow>
               vehicle_summary (snd (create_database lib (Some rows) db)) =
                 Some (vehicle_summary_query rows))"
proof -
  let ?table = "vehicle_summary_query rows"
  let ?ns = "map (\<lambda>k. length (filter (\<lambda>r. Vehicle_Type r = k) rows)) (remdups (map Vehicle_Type rows))"
  have flags: "Is_Successful r \<in> {0, 1}" if "r \<in> set rows" for r
  proof -
    from clean_data_cleaned_row [OF assms that] obtain r0 d where "r = clean_row lib d r0"
      by blast
    then show ?thesis by (simp add: clean_row_fields astype_int_def)
  qed
  have lines: "\<exists>t s. Total_Bookings l = Number (of_nat t)
                  \<and> Successful_Bookings l = Number (of_nat s) \<and> s \<le> t"
    if "l \<in> set ?table" for l
  proof -
    from vehicle_summary_line [OF that] obtain g where g: "set g \<subseteq> set rows"
      and t: "Total_Bookings l = Number (of_nat (length g))"
      and s: "Successful_Bookings l = Number (of_int (sum_list (map Is_Successful g)))"
      by blast
    have "sum_list (map Is_Successful g) = int (length (filter (\<lambda>r. Is_Successful r = 1) g))"
      by (rule sum_list_flags) (use g flags in blast)
    with s have "Successful_Bookings l = Number (of_nat (length (filter (\<lambda>r. Is_Successful r = 1) g)))"
      by simp
    moreover have "length (filter (\<lambda>r. Is_Successful r = 1) g) \<le> length g"
      by (rule length_filter_le)
    ultimately show ?thesis using t by blast
  qed
  have "map Total_Bookings ?table = map (\<lambda>n. Number (of_nat n)) ?ns"
    by (simp add: vehicle_summary_totals comp_def)
  moreover have "sum_list ?ns = length rows"
    by (rule group_sizes_remdups)
  moreover have "vehicle_summary db = None \<longrightarrow>
      vehicle_summary (snd (create_database lib (Some rows) db)) = Some ?table"
    by (simp add: create_database_fresh)
  ultimately show ?thesis using lines by blast
qed

theorem vehicle_summary_consistent_witness:
  "clean_data demo_lib (Some [ride_B1, ride_cancelled]) =
     Inr (Some [clean_row demo_lib ''2024-07-01'' ride_B1,
                clean_row demo_lib ''2024-07-01'' ride_cancelled])
   \<and> vehicle_summary no_database = None
   \<and> vehicle_summary (snd (create_database demo_lib
         (Some [clean_row demo_lib ''2024-07-01'' ride_B1,
                clean_row demo_lib ''2024-07-01'' ride_cancelled]) no_database)) =
       Some [[Text ''Auto'', Number 2, Number 1, Number 75, Number 150, Number 10, Number 20,
              NaN, NaN]]
   \<and> (\<exists>ns. map Total_Bookings
               [[Text ''Auto'', Number 2, Number 1, Number 75, Number 150, Number 10, Number 20,
                 NaN, NaN]] = map (\<lambda>n. Number (of_nat n)) ns
          \<and> sum_list ns = 2)"
proof -
  let ?rows = "[clean_row demo_lib ''2024-07-01'' ride_B1,
                clean_row demo_lib ''2024-07-01'' ride_cancelled]"
  have none: "vehicle_summary no_database = None"
    by (rule no_database_fields)
  have table: "vehicle_summary (snd (create_database demo_lib (Some ?rows) no_database)) =
       Some [[Text ''Auto'', Number 2, Number 1, Number 75, Number 150, Number 10, Number 20,
              NaN, NaN]]"
    by (simp only: create_database_fresh [OF none] demo_vehicle_summary)
  from vehicle_summary_consistent [OF demo_clean_pair] obtain ns
    where "map Total_Bookings (vehicle_summary_query ?rows) = map (\<lambda>n. Number (of_nat n)) ns"
      and "sum_list ns = length ?rows"
    by blast
  then have "\<exists>ns. map Total_Bookings
               [[Text ''Auto'', Number 2, Number 1, Number 75, Number 150, Number 10, Number 20,
                 NaN, NaN]] = map (\<lambda>n. Number (of_nat n)) ns
          \<and> sum_list ns = 2"
    by (auto simp: demo_vehicle_summary)
  with demo_clean_pair none table show ?thesis by blast
qed

section \<open>Averages of the vehicle summary\<close>

text \<open>
  Claim C3 asks that the averages and totals of the vehicle summary be taken over the
  successful rows only. With one successful ride of value 100 and one cancelled ride of
  value 50 of the same vehicle type, both pipelines store 75 as average booking value;
  \<open>create_database\<close> also stores the total revenue 150 and the total distance 20, all rows
  counted, where \<open>process_data\<close> stores 100 and 10.
\<close>

theorem vehicle_averages_over_all_rows:
  "clean_data demo_lib (Some [ride_B1, ride_cancelled]) =
     Inr (Some [clean_row demo_lib ''2024-07-01'' ride_B1,
                clean_row demo_lib ''2024-07-01'' ride_cancelled])
   \<and> vehicle_summary (snd (create_database demo_lib
         (Some [clean_row demo_lib ''2024-07-01'' ride_B1,
                clean_row demo_lib ''2024-07-01'' ride_cancelled]) no_database)) =
       Some [[Text ''Auto'', Number 2, Number 1, Number 75, Number 150, Number 10, Number 20,
              NaN, NaN]]
   \<and> vehicle_summary (snd (process_data demo_lib (Sheet [ride_B1, ride_cancelled])
         no_database)) =
       Some [[Text ''Auto'', Number 2, Number 1, Number 75, Number 100, Number 10, Number 10,
              NaN, NaN]]"
proof (intro conjI)
  show "clean_data demo_lib (Some [ride_B1, ride_cancelled]) =
     Inr (Some [clean_row demo_lib ''2024-07-01'' ride_B1,
                clean_row demo_lib ''2024-07-01'' ride_cancelled])"
    by (rule demo_clean_pair)
  show "vehicle_summary (snd (create_database demo_lib
         (Some [clean_row demo_lib ''2024-07-01'' ride_B1,
                clean_row demo_lib ''2024-07-01'' ride_cancelled]) no_database)) =
       Some [[Text ''Auto'', Number 2, Number 1, Number 75, Number 150, Number 10, Number 20,
              NaN, NaN]]"
    by (simp only: create_database_fresh [OF no_database_fields(3)] demo_vehicle_summary)
  have "vehicle_summary (snd (process_data demo_lib (Sheet [ride_B1, ride_cancelled])
         no_database)) =
       Some (vehicle_summary_select (map (\<lambda>r. process_row demo_lib (dt r) r)
         [ride_B1, ride_cancelled]))"
    by (rule process_data_fresh [OF demo_preprocessed no_database_fields(3)])
  then show "vehicle_summary (snd (process_data demo_lib (Sheet [ride_B1, ride_cancelled])
         no_database)) =
       Some [[Text ''Auto'', Number 2, Number 1, Number 75, Number 100, Number 10, Number 10,
              NaN, NaN]]"
    by (simp add: ride_B1_fields ride_cancelled_fields demo_vehicle_select)
qed

section \<open>A second run on the same database\<close>

text \<open>
  Claim C4 asks that a run replace the contents of all four tables. \<open>create_database\<close>
  replaces \<open>rides\<close>, but the summary tables are made with \<open>CREATE TABLE IF NOT EXISTS\<close> and
  stay as a former run left them (\<open>summary_tables_kept\<close>): after a first run on the
  successful ride and a second on the cancelled one, \<open>rides\<close> holds the cancelled ride
  and \<open>vehicle_summary\<close> still the line of the successful one, not the summary of \<open>rides\<close>.
\<close>

theorem summary_tables_survive_next_run:
  "clean_data demo_lib (Some [ride_B1]) = Inr (Some [clean_row demo_lib ''2024-07-01'' ride_B1])
   \<and> clean_data demo_lib (Some [ride_cancelled]) =
       Inr (Some [clean_row demo_lib ''2024-07-01'' ride_cancelled])
   \<and> fst (create_database demo_lib (Some [clean_row demo_lib ''2024-07-01'' ride_cancelled])
         (snd (create_database demo_lib (Some [clean_row demo_lib ''2024-07-01'' ride_B1])
            no_database))) = True
   \<and> rides (snd (create_database demo_lib (Some [clean_row demo_lib ''2024-07-01'' ride_cancelled])
         (snd (create_database demo_lib (Some [clean_row demo_lib ''2024-07-01'' ride_B1])
            no_database)))) = Some [clean_row demo_lib ''2024-07-01'' ride_cancelled]
   \<and> vehicle_summary
         (snd (create_database demo_lib (Some [clean_row demo_lib ''2024-07-01'' ride_cancelled])
         (snd (create_database demo_lib (Some [clean_row demo_lib ''2024-07-01'' ride_B1])
            no_database)))) =
       Some [[Text ''Auto'', Number 1, Number 1, Number 100, Number 100, Number 10, Number 10,
              NaN, NaN]]
   \<and> vehicle_summary_query [clean_row demo_lib ''2024-07-01'' ride_cancelled] =
       [[Text ''Auto'', Number 1, Number 0, Number 50, Number 50, Number 10, Number 10, NaN, NaN]]"
proof -
  let ?run1 = "create_database demo_lib (Some [clean_row demo_lib ''2024-07-01'' ride_B1]) no_database"
  have first: "vehicle_summary (snd ?run1) =
       Some [[Text ''Auto'', Number 1, Number 1, Number 100, Number 100, Number 10, Number 10,
              NaN, NaN]]"
    by (simp only: create_database_tables no_database_fields create_table_if_not_exists_simps
        demo_vehicle_summary_B1)
  show ?thesis
    by (simp only: demo_clean_B1 demo_clean_cancelled create_database_tables(1,2)
        summary_tables_kept(1) [OF first] demo_vehicle_summary_cancelled simp_thms)
qed

section \<open>Loading\<close>

text \<open>
  Claim C5 as stated: a sheet without rows is a load error, after which nothing is written.
  On a sheet that has its header and no data row \<open>load_data\<close> returns the empty frame, and
  \<open>process_data\<close> returns True and replaces the table \<open>rides\<close> of a former run by an empty
  one.
\<close>

theorem empty_sheet_is_loaded:
  "load_data (Sheet []) = Some ([] :: string row list)
   \<and> rides (snd (process_data demo_lib (Sheet [ride_B1]) no_database)) =
       Some [process_row demo_lib ''2024-07-01'' ride_B1]
   \<and> fst (process_data demo_lib (Sheet [])
         (snd (process_data demo_lib (Sheet [ride_B1]) no_database))) = True
   \<and> rides (snd (process_data demo_lib (Sheet [])
         (snd (process_data demo_lib (Sheet [ride_B1]) no_database)))) = Some []"
proof (intro conjI)
  show "load_data (Sheet []) = Some ([] :: string row list)"
    by (rule load_data_simps)
  show "rides (snd (process_data demo_lib (Sheet [ride_B1]) no_database)) =
       Some [process_row demo_lib ''2024-07-01'' ride_B1]"
    by (simp add: rides_process_data [OF demo_preprocessed] ride_B1_fields)
  show "fst (process_data demo_lib (Sheet [])
         (snd (process_data demo_lib (Sheet [ride_B1]) no_database))) = True"
    by (simp add: process_data_Sheet [OF preprocessed_Nil])
  show "rides (snd (process_data demo_lib (Sheet [])
         (snd (process_data demo_lib (Sheet [ride_B1]) no_database)))) = Some []"
    by (rule rides_process_data [OF preprocessed_Nil])
qed

text \<open>
  Claim C5, amended. When the file is missing or cannot be read, \<open>load_data\<close> returns None
  (no exception reaches the caller), \<open>clean_data\<close> and \<open>create_database\<close> then do nothing,
  and \<open>process_data\<close> returns False and leaves the disk as it was. A sheet without rows is
  loaded and processed like any other: \<open>process_data\<close> returns True and the table \<open>rides\<close>
  is empty afterwards.
\<close>

theorem load_failure_writes_nothing:
  "load_data Missing = None \<and> load_data Unreadable = None
   \<and> clean_data lib None = Inr None
   \<and> create_database lib None db = (False, db)
   \<and> process_data lib Missing db = (False, db)
   \<and> process_data lib Unreadable db = (False, db)
   \<and> load_data (Sheet []) = Some []
   \<and> clean_data lib (Some []) = Inr (Some [])
   \<and> fst (process_data lib (Sheet []) db) = True
   \<and> rides (snd (process_data lib (Sheet []) db)) = Some []"
proof (intro conjI)
  show "clean_data lib None = Inr None"
    by (simp add: clean_data_def)
  show "create_database lib None db = (False, db)"
    by (simp add: create_database_def)
  show "clean_data lib (Some []) = Inr (Some [])"
    by (simp add: clean_data_def transformed_def str_accessor_def drop_invalid_def)
  show "fst (process_data lib (Sheet []) db) = True"
    by (simp add: process_data_Sheet [OF preprocessed_Nil])
  show "rides (snd (process_data lib (Sheet []) db)) = Some []"
    by (rule rides_process_data [OF preprocessed_Nil])
qed (simp_all add: load_data_simps process_data_no_sheet)

section \<open>Customers with equal totals\<close>




section \<open>The limit of the top-customers query\<close>




end
